theory Spec2Isabelle
  imports Main "HOL-Library.Product_Lexorder"
begin

section \<open>Data model\<close>

text \<open>
  The two minigame modules keep their data in Python dicts that are written to and read
  from JSON files. A dict with a fixed set of keys is a record here; a key that may hold
  \<^verbatim>\<open>None\<close> has an option type. Identifiers (\<^verbatim>\<open>str(uuid.uuid4())\<close>) and timestamps
  (\<^verbatim>\<open>datetime.now().isoformat()\<close>) are strings that the environment supplies: every
  function that draws one takes it as an argument, one argument per call of
  \<^verbatim>\<open>uuid4\<close> or \<^verbatim>\<open>now\<close> in its body.
\<close>

datatype py_error = IndexError

record question =
  qid :: string
  question_text :: string
  answers :: "string list"
  correct_answer_index :: int
  explanation :: string

record quiz =
  quiz_id :: string
  title :: string
  description :: string
  category :: string
  created_at :: string
  updated_at :: string
  questions :: "question list"

text \<open>
  A question of a session is the dict of the bank's question with the two keys
  \<^verbatim>\<open>user_answer_index\<close> and \<^verbatim>\<open>is_correct\<close> added. The field
  \<open>sq_correct_answer_index\<close> is \<open>None\<close> when the dict has no key
  \<^verbatim>\<open>correct_answer_index\<close> and \<open>Some i\<close> when the key is there with value \<open>i\<close>.
\<close>

record session_question =
  sq_id :: string
  sq_question_text :: string
  sq_answers :: "string list"
  sq_correct_answer_index :: "int option"
  sq_explanation :: string
  user_answer_index :: "int option"
  is_correct :: "bool option"

record session =
  session_id :: string
  s_quiz_id :: string
  user_id :: "string option"
  s_title :: string
  started_at :: string
  completed_at :: "string option"
  s_questions :: "session_question list"
  current_question_index :: int
  s_answers :: "int list"
  score :: "int option"

text \<open>
  The storage directory: the file \<^verbatim>\<open><id>.json\<close> holds the quiz the map gives for
  \<open>id\<close>. A file that is missing or cannot be parsed is \<open>None\<close>, as \<^verbatim>\<open>get_quiz\<close>
  returns \<^verbatim>\<open>None\<close> for both.
\<close>

type_synonym quiz_store = "string \<rightharpoonup> quiz"

text \<open>
  \<^verbatim>\<open>random.sample\<close> and \<^verbatim>\<open>random.shuffle\<close> are library calls whose result the
  random generator decides; the model takes both as parameters.
\<close>

record rng =
  sample :: "question list \<Rightarrow> nat \<Rightarrow> question list"
  shuffle :: "question list \<Rightarrow> question list"

section \<open>Question bank store (quiz\_game.py)\<close>

definition save_quiz :: "quiz_store \<Rightarrow> quiz \<Rightarrow> quiz_store" where
  "save_quiz st q = st(quiz_id q \<mapsto> q)"

definition get_quiz :: "quiz_store \<Rightarrow> string \<Rightarrow> quiz option" where
  "get_quiz st i = st i"

definition create_quiz ::
  "quiz_store \<Rightarrow> string \<Rightarrow> string \<Rightarrow> string \<Rightarrow> string \<Rightarrow> string \<Rightarrow> string
     \<Rightarrow> quiz \<times> quiz_store" where
  "create_quiz st uuid now1 now2 ttl descr cat =
     (let q = \<lparr>quiz_id = uuid, title = ttl, description = descr, category = cat,
                created_at = now1, updated_at = now2, questions = []\<rparr>
      in (q, save_quiz st q))"

definition add_question ::
  "quiz_store \<Rightarrow> string \<Rightarrow> string \<Rightarrow> string \<Rightarrow> string \<Rightarrow> string list \<Rightarrow> int \<Rightarrow> string
     \<Rightarrow> quiz option \<times> quiz_store" where
  "add_question st uuid now i text ans correct expl =
     (case get_quiz st i of
        None \<Rightarrow> (None, st)
      | Some q \<Rightarrow>
          (let new_question = \<lparr>qid = uuid, question_text = text, answers = ans,
                                 correct_answer_index = correct, explanation = expl\<rparr>;
               q' = q\<lparr>questions := questions q @ [new_question], updated_at := now\<rparr>
           in (Some q', save_quiz st q')))"

definition get_random_questions :: "rng \<Rightarrow> quiz_store \<Rightarrow> string \<Rightarrow> nat \<Rightarrow> question list" where
  "get_random_questions r st i count =
     (case get_quiz st i of
        None \<Rightarrow> []
      | Some q \<Rightarrow>
          if questions q = [] then []
          else if length (questions q) > count then sample r (questions q) count
          else shuffle r (questions q))"

section \<open>Quiz session engine (quiz\_game.py)\<close>

text \<open>
  The loop at the end of \<^verbatim>\<open>create_quiz_session\<close> sets two keys of every question dict
  and touches no other key.
\<close>

definition session_question_of :: "question \<Rightarrow> session_question" where
  "session_question_of q =
     \<lparr>sq_id = qid q, sq_question_text = question_text q, sq_answers = answers q,
      sq_correct_answer_index = Some (correct_answer_index q),
      sq_explanation = explanation q,
      user_answer_index = None, is_correct = None\<rparr>"

definition create_quiz_session ::
  "rng \<Rightarrow> quiz_store \<Rightarrow> string \<Rightarrow> string \<Rightarrow> string \<Rightarrow> string option \<Rightarrow> session option" where
  "create_quiz_session r st uuid now i uid =
     (case get_quiz st i of
        None \<Rightarrow> None
      | Some q \<Rightarrow>
          (let qs = get_random_questions r st i 5
           in if qs = [] then None
              else Some \<lparr>session_id = uuid, s_quiz_id = i, user_id = uid, s_title = title q,
                         started_at = now, completed_at = None,
                         s_questions = map session_question_of qs,
                         current_question_index = 0, s_answers = [], score = None\<rparr>))"

subsection \<open>The score: binary64 arithmetic and Python's round\<close>

text \<open>
  The score is \<^verbatim>\<open>round((correct_count / len(session["questions"])) * 100)\<close>. Both
  operands of \<^verbatim>\<open>/\<close> are ints, so the quotient is the binary64 number nearest to the
  exact quotient; the product with 100 is rounded to binary64 again; \<^verbatim>\<open>round\<close> of a
  float is the nearest integer, a tie going to the even one.

  A binary64 number is a pair \<open>(m, e)\<close> that stands for \<open>m * 2 ^ e\<close>, with a mantissa
  \<open>m\<close> of at most 53 bits. Every rounding is to the nearest, ties to even, and is
  computed in integers: \<open>round_div_even a b\<close> is the integer nearest to \<open>a / b\<close>.
  The exponent range of binary64 is left out, and the operands are not negative: the
  values here lie between \<open>1 / len\<close> and 100, far from overflow and from subnormal
  numbers.
\<close>

type_synonym double = "int \<times> int"

function bit_length :: "int \<Rightarrow> nat" where
  "bit_length n = (if n \<le> 0 then 0 else Suc (bit_length (n div 2)))"
  by pat_completeness auto
termination
  by (relation "measure nat") auto

declare bit_length.simps [simp del]

definition round_div_even :: "int \<Rightarrow> int \<Rightarrow> int" where
  "round_div_even a b =
     (let q = a div b; r = a mod b
      in if 2 * r > b \<or> (2 * r = b \<and> odd q) then q + 1 else q)"

text \<open>
  \<open>float_div a b\<close> for \<open>a \<ge> 0\<close> and \<open>b > 0\<close>: with \<open>p\<close> the exponent of the leading
  bit of \<open>a / b\<close> (so \<open>2 ^ p \<le> a / b < 2 ^ (p + 1)\<close>), the mantissa is \<open>a / b\<close> scaled
  by \<open>2 ^ (52 - p)\<close> and rounded.
\<close>

definition float_div :: "int \<Rightarrow> int \<Rightarrow> double" where
  "float_div a b =
     (if a = 0 then (0, 0)
      else
        (let k = int (bit_length a) - int (bit_length b);
             p = (if (if k \<ge> 0 then a \<ge> b * 2 ^ nat k else a * 2 ^ nat (- k) \<ge> b)
                  then k else k - 1);
             sh = 52 - p
         in (if sh \<ge> 0 then round_div_even (a * 2 ^ nat sh) b
             else round_div_even a (b * 2 ^ nat (- sh)), - sh)))"

text \<open>The product of a float and an int that is itself a binary64 number, such as 100.\<close>

definition float_mul_int :: "double \<Rightarrow> int \<Rightarrow> double" where
  "float_mul_int x c =
     (let m = fst x * c; l = int (bit_length m)
      in if l \<le> 53 then (m, snd x)
         else (round_div_even m (2 ^ nat (l - 53)), snd x + (l - 53)))"

definition py_round :: "double \<Rightarrow> int" where
  "py_round x =
     (if snd x \<ge> 0 then fst x * 2 ^ nat (snd x)
      else round_div_even (fst x) (2 ^ nat (- snd x)))"

definition score_of :: "int \<Rightarrow> int \<Rightarrow> int" where
  "score_of c n = py_round (float_mul_int (float_div c n) 100)"

text \<open>
  Long division of \<open>a * 2 ^ k\<close> by \<open>b\<close>, one bit at a time. It is used to evaluate
  \<open>float_div\<close> on numerals; \<open>shift_divmod_eq\<close> shows that it gives the quotient and the
  remainder.
\<close>

fun shift_divmod :: "int \<Rightarrow> int \<Rightarrow> nat \<Rightarrow> int \<times> int" where
  "shift_divmod a b 0 = (a div b, a mod b)"
| "shift_divmod a b (Suc k) =
     (let (q, r) = shift_divmod a b k
      in if 2 * r \<ge> b then (2 * q + 1, 2 * r - b) else (2 * q, 2 * r))"

text \<open>
  The score law for sessions of \<open>n\<close> questions: for every count \<open>c\<close> of correct answers
  from 0 to \<open>n\<close>, the binary64 computation gives \<open>100 * c / n\<close> rounded to the nearest
  integer, ties to even.
\<close>

definition score_law :: "int \<Rightarrow> bool" where
  "score_law n = list_all (\<lambda>c. score_of c n = round_div_even (100 * c) n) [0..n]"

definition correct_count :: "session_question list \<Rightarrow> int" where
  "correct_count qs = int (length (filter (\<lambda>q. is_correct q = Some True) qs))"

definition session_score :: "session_question list \<Rightarrow> int" where
  "session_score qs = score_of (correct_count qs) (int (length qs))"

subsection \<open>answer\_question\<close>

text \<open>
  \<^verbatim>\<open>session["questions"][question_index]\<close> is Python indexing: an index from
  \<open>- len\<close> to \<open>-1\<close> counts from the end, one below \<open>- len\<close> raises IndexError. The
  session is mutated in place and returned; the model returns the new session.
\<close>

definition answer_question ::
  "quiz_store \<Rightarrow> string \<Rightarrow> session \<Rightarrow> int \<Rightarrow> int \<Rightarrow> py_error + session" where
  "answer_question st now s question_index answer_index =
     (let n = int (length (s_questions s))
      in if question_index \<ge> n then Inr s
         else if question_index < - n then Inl IndexError
         else
           (let i = nat (if question_index < 0 then n + question_index else question_index);
                question = s_questions s ! i
            in case get_quiz st (s_quiz_id s) of
                 None \<Rightarrow> Inr s
               | Some q \<Rightarrow>
                   (case find (\<lambda>oq. qid oq = sq_id question) (questions q) of
                      None \<Rightarrow> Inr s
                    | Some original_question \<Rightarrow>
                        (let question' = question
                               \<lparr>user_answer_index := Some answer_index,
                                is_correct :=
                                  Some (answer_index = correct_answer_index original_question),
                                sq_explanation := explanation original_question\<rparr>;
                             s1 = s\<lparr>s_questions := (s_questions s)[i := question'],
                                    current_question_index := question_index + 1\<rparr>
                         in if current_question_index s1 \<ge> n
                            then Inr (s1\<lparr>completed_at := Some now,
                                         score := Some (session_score (s_questions s1))\<rparr>)
                            else Inr s1))))"

text \<open>
  The invariant the data model asks of a stored question: the index of the correct answer
  is an index into the answers.
\<close>

definition valid_question :: "question \<Rightarrow> bool" where
  "valid_question q \<longleftrightarrow>
     0 \<le> correct_answer_index q \<and> correct_answer_index q < int (length (answers q))"

section \<open>Flashcards (flashcards.py)\<close>

record card =
  card_id :: string
  front :: string
  back_text :: string
  tags :: "string list"
  card_created_at :: string
  last_reviewed :: "string option"
  review_count :: int
  difficulty :: int

record flashcard_set =
  set_id :: string
  set_title :: string
  set_description :: string
  set_created_at :: string
  set_updated_at :: string
  cards :: "card list"

type_synonym set_store = "string \<rightharpoonup> flashcard_set"

definition save_set :: "set_store \<Rightarrow> flashcard_set \<Rightarrow> set_store" where
  "save_set st fs = st(set_id fs \<mapsto> fs)"

definition get_set :: "set_store \<Rightarrow> string \<Rightarrow> flashcard_set option" where
  "get_set st i = st i"

text \<open>
  The key of \<^verbatim>\<open>sorted\<close> in \<^verbatim>\<open>get_cards_to_review\<close> is a tuple; Python compares tuples
  lexicographically, as the order on products does here. \<^verbatim>\<open>sorted\<close> is stable and
  ascending in the key, and so is \<open>sort_key\<close>.
\<close>

definition review_key :: "card \<Rightarrow> int \<times> int \<times> int" where
  "review_key c =
     (if last_reviewed c = None then 0 else 1, difficulty c, - review_count c)"

text \<open>
  The slice \<^verbatim>\<open>xs[:count]\<close>: the first \<open>count\<close> elements, and for a negative \<open>count\<close>
  all but the last \<open>- count\<close>.
\<close>

definition slice_to :: "int \<Rightarrow> 'a list \<Rightarrow> 'a list" where
  "slice_to count xs =
     (if count \<ge> 0 then take (nat count) xs else take (nat (int (length xs) + count)) xs)"

definition get_cards_to_review :: "set_store \<Rightarrow> string \<Rightarrow> int \<Rightarrow> card list" where
  "get_cards_to_review st i count =
     (case get_set st i of
        None \<Rightarrow> []
      | Some fs \<Rightarrow>
          if cards fs = [] then [] else slice_to count (sort_key review_key (cards fs)))"

text \<open>
  The loop of \<^verbatim>\<open>record_review\<close> updates the first card whose identifier matches and
  stops (\<^verbatim>\<open>break\<close>).
\<close>

fun review_first :: "string \<Rightarrow> string \<Rightarrow> int \<Rightarrow> card list \<Rightarrow> card list" where
  "review_first now cid d [] = []"
| "review_first now cid d (c # cs) =
     (if card_id c = cid
      then c\<lparr>last_reviewed := Some now, review_count := review_count c + 1,
             difficulty := max 0 (min 3 d)\<rparr> # cs
      else c # review_first now cid d cs)"

definition record_review ::
  "set_store \<Rightarrow> string \<Rightarrow> string \<Rightarrow> string \<Rightarrow> string \<Rightarrow> int
     \<Rightarrow> flashcard_set option \<times> set_store" where
  "record_review st now1 now2 i cid d =
     (case get_set st i of
        None \<Rightarrow> (None, st)
      | Some fs \<Rightarrow>
          (let fs' = fs\<lparr>cards := review_first now1 cid d (cards fs), set_updated_at := now2\<rparr>
           in (Some fs', save_set st fs')))"

section \<open>Example data\<close>

text \<open>
  A bank of two questions, a session over it with the first question answered, and a
  random generator that takes a prefix as its sample and reverses as its shuffle.
\<close>

definition question_one :: question where
  "question_one = \<lparr>qid = ''q1'', question_text = ''2 + 2'', answers = [''3'', ''4''],
     correct_answer_index = 1, explanation = ''sum''\<rparr>"

definition question_two :: question where
  "question_two = \<lparr>qid = ''q2'', question_text = ''3 * 3'', answers = [''9'', ''6''],
     correct_answer_index = 0, explanation = ''product''\<rparr>"

definition bank_one :: quiz where
  "bank_one = \<lparr>quiz_id = ''b1'', title = ''Arithmetic'', description = '''',
     category = ''math'', created_at = ''t0'', updated_at = ''t0'',
     questions = [question_one, question_two]\<rparr>"

definition store_one :: quiz_store where
  "store_one = Map.empty(''b1'' \<mapsto> bank_one)"

definition prefix_rng :: rng where
  "prefix_rng = \<lparr>sample = (\<lambda>qs k. take k qs), shuffle = rev\<rparr>"

definition unanswered :: "string \<Rightarrow> session_question" where
  "unanswered i = \<lparr>sq_id = i, sq_question_text = ''?'', sq_answers = [''a'', ''b''],
     sq_correct_answer_index = Some 0, sq_explanation = '''',
     user_answer_index = None, is_correct = None\<rparr>"

definition answered :: "string \<Rightarrow> bool \<Rightarrow> session_question" where
  "answered i ok = (unanswered i)\<lparr>user_answer_index := Some (if ok then 0 else 1),
     is_correct := Some ok\<rparr>"

definition session_of :: "string \<Rightarrow> session_question list \<Rightarrow> session" where
  "session_of b qs = \<lparr>session_id = ''s1'', s_quiz_id = b, user_id = None,
     s_title = ''Arithmetic'', started_at = ''t1'', completed_at = None, s_questions = qs,
     current_question_index = 0, s_answers = [], score = None\<rparr>"

text \<open>
  The three cards of the review example: A was never reviewed and has difficulty 1, B and
  C were reviewed once and have difficulty 3 and 0.
\<close>

definition card_of :: "string \<Rightarrow> string option \<Rightarrow> int \<Rightarrow> int \<Rightarrow> card" where
  "card_of i reviewed n d = \<lparr>card_id = i, front = ''f'', back_text = ''b'', tags = [],
     card_created_at = ''t0'', last_reviewed = reviewed, review_count = n, difficulty = d\<rparr>"

definition set_of :: "card list \<Rightarrow> flashcard_set" where
  "set_of cs = \<lparr>set_id = ''f1'', set_title = ''Cards'', set_description = '''',
     set_created_at = ''t0'', set_updated_at = ''t0'', cards = cs\<rparr>"

definition card_store :: "card list \<Rightarrow> set_store" where
  "card_store cs = Map.empty(''f1'' \<mapsto> set_of cs)"

definition fresh_session :: session where
  "fresh_session =
     session_of ''b1'' [session_question_of question_two, session_question_of question_one]"

definition orphan_session :: session where
  "orphan_session = session_of ''b1'' [unanswered ''zz'']"

definition four_session :: session where
  "four_session = session_of ''b1''
     [answered ''q2'' True, answered ''q2'' False, answered ''q2'' True, unanswered ''q2'']"

definition forty_session :: session where
  "forty_session = session_of ''b1''
     (replicate 22 (answered ''q2'' True) @ replicate 17 (answered ''q2'' False)
        @ [unanswered ''q2''])"

definition card_A :: card where
  "card_A = card_of ''A'' None 0 1"

definition card_B :: card where
  "card_B = card_of ''B'' (Some ''t1'') 1 3"

definition card_C :: card where
  "card_C = card_of ''C'' (Some ''t1'') 1 0"

definition card_D :: card where
  "card_D = card_of ''D'' (Some ''t1'') 1 2"

definition card_E :: card where
  "card_E = card_of ''E'' (Some ''t1'') 5 2"

section \<open>Round trip of the question bank store\<close>

text \<open>
  C7. For every title, description and category, \<open>get_quiz\<close> at the identifier of the
  bank that \<open>create_quiz\<close> returns gives that bank back: the same title, description and
  category, and no questions.
\<close>

theorem get_quiz_create_quiz:
  "(let (q, st') = create_quiz st uuid now1 now2 ttl descr cat
    in get_quiz st' (quiz_id q) = Some q \<and> title q = ttl \<and> description q = descr
       \<and> category q = cat \<and> questions q = [])"
  by (simp add: create_quiz_def save_quiz_def get_quiz_def Let_def)

section \<open>Adding questions\<close>

lemmas example_defs =
  store_one_def bank_one_def question_one_def question_two_def prefix_rng_def
  unanswered_def answered_def session_of_def fresh_session_def orphan_session_def
  four_session_def session_question_of_def get_quiz_def

text \<open>
  C4, as the code has it. \<open>add_question\<close> checks nothing: every call whose bank resolves
  appends a question that carries the index the caller gave, whatever it is. So the
  appended question's index is a valid index into its answers exactly when the caller's
  index lies in \<open>[0, len(answers))\<close>, and the questions of the bank satisfy the invariant
  after the call exactly when they did before and the caller's index is in that range.
\<close>

theorem add_question_stores_index:
  assumes "get_quiz st i = Some q"
  shows "(let nq = \<lparr>qid = uuid, question_text = text, answers = ans,
                     correct_answer_index = correct, explanation = expl\<rparr>;
              q' = q\<lparr>questions := questions q @ [nq], updated_at := now\<rparr>
          in add_question st uuid now i text ans correct expl
               = (Some q', st(quiz_id q \<mapsto> q'))
             \<and> last (questions q') = nq
             \<and> correct_answer_index (last (questions q')) = correct
             \<and> valid_question (last (questions q'))
                 = (0 \<le> correct \<and> correct < int (length ans))
             \<and> list_all valid_question (questions q')
                 = (list_all valid_question (questions q)
                    \<and> 0 \<le> correct \<and> correct < int (length ans)))"
  using assms by (simp add: add_question_def save_quiz_def valid_question_def Let_def)

theorem add_question_stores_index_witness:
  "get_quiz store_one ''b1'' = Some bank_one
   \<and> fst (add_question store_one ''q3'' ''t5'' ''b1'' ''?'' [''x'', ''y''] 1 '''')
       = Some (bank_one\<lparr>questions := [question_one, question_two,
                 \<lparr>qid = ''q3'', question_text = ''?'', answers = [''x'', ''y''],
                  correct_answer_index = 1, explanation = ''''\<rparr>],
               updated_at := ''t5''\<rparr>)
   \<and> valid_question \<lparr>qid = ''q3'', question_text = ''?'', answers = [''x'', ''y''],
                  correct_answer_index = 1, explanation = ''''\<rparr>"
proof -
  have h: "get_quiz store_one ''b1'' = Some bank_one"
    by (simp add: example_defs)
  from add_question_stores_index [OF h, of "''q3''" "''?''" "[''x'', ''y'']" 1 "''''" "''t5''"] h
  show ?thesis
    by (simp add: Let_def bank_one_def)
qed

text \<open>
  The claim as stated fails: with the index 5 and two answers the bank resolves, and the
  question appended has an index that is no index into its answers.
\<close>

theorem add_question_counterexample:
  "fst (add_question store_one ''q3'' ''t5'' ''b1'' ''?'' [''x'', ''y''] 5 '''')
     = Some (bank_one\<lparr>questions := [question_one, question_two,
               \<lparr>qid = ''q3'', question_text = ''?'', answers = [''x'', ''y''],
                correct_answer_index = 5, explanation = ''''\<rparr>],
             updated_at := ''t5''\<rparr>)
   \<and> \<not> valid_question \<lparr>qid = ''q3'', question_text = ''?'', answers = [''x'', ''y''],
                correct_answer_index = 5, explanation = ''''\<rparr>"
  by (simp add: add_question_def save_quiz_def valid_question_def Let_def example_defs)

section \<open>Creating a session\<close>

text \<open>
  C8. Every question of a session that \<open>create_quiz_session\<close> returns has
  \<open>user_answer_index\<close> and \<open>is_correct\<close> set to \<open>None\<close>, whatever the random generator
  chose.
\<close>

theorem create_quiz_session_unanswered:
  assumes "create_quiz_session r st uuid now i uid = Some s"
  shows "\<forall>sq \<in> set (s_questions s). user_answer_index sq = None \<and> is_correct sq = None"
  using assms
  by (auto simp: create_quiz_session_def session_question_of_def Let_def
           split: option.splits if_splits)

theorem create_quiz_session_unanswered_witness:
  "create_quiz_session prefix_rng store_one ''s1'' ''t1'' ''b1'' None = Some fresh_session
   \<and> map user_answer_index (s_questions fresh_session) = [None, None]
   \<and> map is_correct (s_questions fresh_session) = [None, None]"
proof -
  have h: "create_quiz_session prefix_rng store_one ''s1'' ''t1'' ''b1'' None
             = Some fresh_session"
    by (simp add: create_quiz_session_def get_random_questions_def example_defs)
  from create_quiz_session_unanswered [OF h] h show ?thesis
    by (simp add: fresh_session_def session_of_def)
qed

text \<open>
  C1. The session that \<open>create_quiz_session\<close> returns for the bank of two questions still
  has the key \<^verbatim>\<open>correct_answer_index\<close> in both of its questions, with the true indices 0
  and 1: the loop under the comment \<^verbatim>\<open># Remove correct answer indices to avoid cheating\<close>
  adds two keys and removes none.
\<close>

theorem create_quiz_session_keeps_correct_answer_index:
  "create_quiz_session prefix_rng store_one ''s1'' ''t1'' ''b1'' None = Some fresh_session
   \<and> map sq_correct_answer_index (s_questions fresh_session) = [Some 0, Some 1]"
  by (simp add: create_quiz_session_def get_random_questions_def example_defs)

section \<open>Answering a question\<close>

lemma answer_question_past_end:
  "int (length (s_questions s)) \<le> qi \<Longrightarrow> answer_question st now s qi a = Inr s"
  by (simp add: answer_question_def)

text \<open>
  C3. An index at or past the end leaves the session as it is
  (\<open>answer_question_past_end\<close>), but an index below 0 does not. On the fresh session of
  two questions the index \<open>-1\<close> records the answer on the last question and sets
  \<open>current_question_index\<close> to 0, and the index \<open>-3\<close> raises IndexError.
\<close>

theorem answer_question_negative_index:
  "answer_question store_one ''t2'' fresh_session (- 1) 1
     = Inr (fresh_session
         \<lparr>s_questions := [session_question_of question_two,
            (session_question_of question_one)
              \<lparr>user_answer_index := Some 1, is_correct := Some True\<rparr>],
          current_question_index := 0\<rparr>)
   \<and> answer_question store_one ''t2'' fresh_session (- 3) 1 = Inl IndexError"
  by (simp add: answer_question_def example_defs)

text \<open>
  What \<open>answer_question\<close> returns for an index in range whose bank and question resolve.
\<close>

lemma answer_question_resolved:
  assumes "0 \<le> qi" and "qi < int (length (s_questions s))"
    and "get_quiz st (s_quiz_id s) = Some q"
    and "find (\<lambda>oq. qid oq = sq_id (s_questions s ! nat qi)) (questions q) = Some oq"
  shows "answer_question st now s qi a =
     (let s1 = s\<lparr>s_questions := (s_questions s)[nat qi := (s_questions s ! nat qi)
                     \<lparr>user_answer_index := Some a,
                      is_correct := Some (a = correct_answer_index oq),
                      sq_explanation := explanation oq\<rparr>],
                  current_question_index := qi + 1\<rparr>
      in if qi + 1 \<ge> int (length (s_questions s))
         then Inr (s1\<lparr>completed_at := Some now,
                      score := Some (session_score (s_questions s1))\<rparr>)
         else Inr s1)"
  using assms by (simp add: answer_question_def Let_def)

text \<open>
  C10. For an index in range, when the bank of the session does not resolve, or no
  question of the bank has the identifier of the session's question, \<open>answer_question\<close>
  returns the session it was given.
\<close>

theorem answer_question_unresolved:
  assumes "0 \<le> qi" and "qi < int (length (s_questions s))"
    and "case get_quiz st (s_quiz_id s) of
           None \<Rightarrow> True
         | Some q \<Rightarrow>
             find (\<lambda>oq. qid oq = sq_id (s_questions s ! nat qi)) (questions q) = None"
  shows "answer_question st now s qi a = Inr s"
  using assms by (auto simp: answer_question_def Let_def split: option.splits)

theorem answer_question_unresolved_witness:
  "answer_question Map.empty ''t2'' fresh_session 0 1 = Inr fresh_session
   \<and> answer_question store_one ''t2'' orphan_session 0 1 = Inr orphan_session"
  using answer_question_unresolved [where qi = 0 and s = fresh_session and st = Map.empty
          and now = "''t2''" and a = 1]
        answer_question_unresolved [where qi = 0 and s = orphan_session and st = store_one
          and now = "''t2''" and a = 1]
  by (simp add: example_defs)

text \<open>
  C6, as the code has it. For an index in range whose bank and question resolve, two
  calls on the same index leave the session that the second call alone would have left:
  the question holds the second answer and its correctness, and
  \<open>current_question_index\<close> is the index plus one.
\<close>

theorem answer_question_twice:
  assumes "0 \<le> qi" and "qi < int (length (s_questions s))"
    and "get_quiz st (s_quiz_id s) = Some q"
    and "find (\<lambda>oq. qid oq = sq_id (s_questions s ! nat qi)) (questions q) = Some oq"
  shows "\<exists>s1 s2. answer_question st now1 s qi a1 = Inr s1
           \<and> answer_question st now2 s1 qi a2 = Inr s2
           \<and> answer_question st now2 s qi a2 = Inr s2
           \<and> user_answer_index (s_questions s2 ! nat qi) = Some a2
           \<and> is_correct (s_questions s2 ! nat qi) = Some (a2 = correct_answer_index oq)
           \<and> current_question_index s2 = qi + 1"
  using assms by (auto simp: answer_question_def Let_def)

theorem answer_question_twice_witness:
  "(0::int) \<le> 0 \<and> (0::int) < int (length (s_questions fresh_session))
   \<and> get_quiz store_one (s_quiz_id fresh_session) = Some bank_one
   \<and> find (\<lambda>oq. qid oq = sq_id (s_questions fresh_session ! nat 0)) (questions bank_one)
       = Some question_two
   \<and> answer_question store_one ''t2'' fresh_session 0 1
       = Inr (fresh_session
           \<lparr>s_questions := [(session_question_of question_two)
                \<lparr>user_answer_index := Some 1, is_correct := Some False\<rparr>,
              session_question_of question_one],
            current_question_index := 1\<rparr>)
   \<and> answer_question store_one ''t3''
         (fresh_session
           \<lparr>s_questions := [(session_question_of question_two)
                \<lparr>user_answer_index := Some 1, is_correct := Some False\<rparr>,
              session_question_of question_one],
            current_question_index := 1\<rparr>) 0 0
       = Inr (fresh_session
           \<lparr>s_questions := [(session_question_of question_two)
                \<lparr>user_answer_index := Some 0, is_correct := Some True\<rparr>,
              session_question_of question_one],
            current_question_index := 1\<rparr>)"
proof -
  have h1: "(0::int) \<le> 0"
    by simp
  have h2: "(0::int) < int (length (s_questions fresh_session))"
    by (simp add: example_defs)
  have h3: "get_quiz store_one (s_quiz_id fresh_session) = Some bank_one"
    by (simp add: example_defs)
  have h4: "find (\<lambda>oq. qid oq = sq_id (s_questions fresh_session ! nat 0))
              (questions bank_one) = Some question_two"
    by (simp add: example_defs)
  have e: "answer_question store_one ''t2'' fresh_session 0 1
       = Inr (fresh_session
           \<lparr>s_questions := [(session_question_of question_two)
                \<lparr>user_answer_index := Some 1, is_correct := Some False\<rparr>,
              session_question_of question_one],
            current_question_index := 1\<rparr>)"
    by (simp add: answer_question_def example_defs)
  have f: "answer_question store_one ''t3'' fresh_session 0 0
       = Inr (fresh_session
           \<lparr>s_questions := [(session_question_of question_two)
                \<lparr>user_answer_index := Some 0, is_correct := Some True\<rparr>,
              session_question_of question_one],
            current_question_index := 1\<rparr>)"
    by (simp add: answer_question_def example_defs)
  from answer_question_twice [OF h1 h2 h3 h4, of "''t2''" 1 "''t3''" 0] h2 h3 h4 e f
  show ?thesis
    by auto
qed

text \<open>
  The claim as stated fails when the bank of the session does not resolve: two calls on
  index 0 of the fresh session, with the answers 1 and 0, return the session as it was,
  with no answer on the question and \<open>current_question_index\<close> still 0.
\<close>

theorem answer_question_twice_counterexample:
  "answer_question Map.empty ''t2'' fresh_session 0 1 = Inr fresh_session
   \<and> answer_question Map.empty ''t3'' fresh_session 0 0 = Inr fresh_session
   \<and> user_answer_index (s_questions fresh_session ! 0) = None
   \<and> current_question_index fresh_session = 0"
  by (simp add: answer_question_def example_defs)

section \<open>The final score\<close>

lemma correct_count_bounds: "0 \<le> correct_count qs \<and> correct_count qs \<le> int (length qs)"
  by (simp add: correct_count_def)

text \<open>
  \<open>round_div_even a b\<close> is an integer nearest to \<open>a / b\<close>, and the even one at a tie.
\<close>

lemma round_div_even_nearest:
  assumes "0 < b"
  shows "\<bar>2 * (round_div_even a b * b - a)\<bar> \<le> b"
proof -
  have a: "a = (a div b) * b + a mod b"
    by simp
  have r: "0 \<le> a mod b" "a mod b < b"
    using assms by simp_all
  have q: "(a div b) * b - a = - (a mod b)"
    using a by linarith
  have q1: "(a div b + 1) * b - a = b - a mod b"
    using a by (simp add: algebra_simps)
  show ?thesis
    using r q q1 unfolding round_div_even_def Let_def
    by (auto simp del: div_mult_mod_eq mult_div_mod_eq)
qed

lemma round_div_even_tie:
  assumes "0 < b" and "2 * (a mod b) = b"
  shows "even (round_div_even a b)"
  using assms by (simp add: round_div_even_def Let_def)

text \<open>
  Two values of the binary64 model: \<^verbatim>\<open>1 / 3\<close> is \<^verbatim>\<open>0x1.5555555555555p-2\<close>, and
  \<^verbatim>\<open>(23 / 40) * 100\<close> is \<^verbatim>\<open>57.49999999999999\<close>, one unit in the last place below 57.5.
\<close>

lemma float_div_1_3: "float_div 1 3 = (6004799503160661, - 54)"
  by code_simp

lemma float_mul_23_40: "float_mul_int (float_div 23 40) 100 = (8092405580431359, - 47)"
  by code_simp

text \<open>
  Evaluation of the binary64 model on numerals: the bit length bit by bit, and the
  division of \<open>float_div\<close> by \<open>shift_divmod\<close>.
\<close>

lemma divmod_unique:
  fixes b q r :: int
  assumes "0 < b" and "0 \<le> r" and "r < b"
  shows "(q * b + r) div b = q \<and> (q * b + r) mod b = r"
  using assms by simp

lemma shift_divmod_eq:
  assumes "0 < b"
  shows "shift_divmod a b k = ((a * 2 ^ k) div b, (a * 2 ^ k) mod b)"
proof (induction k)
  case 0
  show ?case by simp
next
  case (Suc k)
  let ?x = "a * 2 ^ k"
  let ?q = "?x div b" and ?r = "?x mod b"
  have x: "a * 2 ^ Suc k = 2 * ?x"
    by simp
  have r: "0 \<le> ?r" "?r < b"
    using assms by simp_all
  have d: "2 * ?x = (2 * ?q) * b + 2 * ?r"
    by (metis div_mult_mod_eq distrib_left mult.assoc mult.commute)
  show ?case
  proof (cases "b \<le> 2 * ?r")
    case True
    have "2 * ?x = (2 * ?q + 1) * b + (2 * ?r - b)"
      using d by (simp add: algebra_simps)
    with divmod_unique [of b "2 * ?r - b" "2 * ?q + 1"] assms r True
    have "(2 * ?x) div b = 2 * ?q + 1 \<and> (2 * ?x) mod b = 2 * ?r - b"
      by simp
    moreover have "shift_divmod a b (Suc k) = (2 * ?q + 1, 2 * ?r - b)"
      using True Suc.IH by simp
    ultimately show ?thesis
      by (simp only: x)
  next
    case False
    with divmod_unique [of b "2 * ?r" "2 * ?q"] assms r d
    have "(2 * ?x) div b = 2 * ?q \<and> (2 * ?x) mod b = 2 * ?r"
      by simp
    moreover have "shift_divmod a b (Suc k) = (2 * ?q, 2 * ?r)"
      using False Suc.IH by simp
    ultimately show ?thesis
      by (simp only: x)
  qed
qed

lemma float_div_0: "float_div 0 b = (0, 0)"
  by (simp add: float_div_def)

lemma float_div_eval:
  assumes "0 < a" and "0 < b"
  shows "float_div a b =
     (let k = int (bit_length a) - int (bit_length b);
          p = (if (if k \<ge> 0 then a \<ge> b * 2 ^ nat k else a * 2 ^ nat (- k) \<ge> b)
               then k else k - 1);
          sh = 52 - p
      in (if sh \<ge> 0
          then (let (q, r) = shift_divmod a b (nat sh)
                in if 2 * r > b \<or> (2 * r = b \<and> odd q) then q + 1 else q)
          else round_div_even a (b * 2 ^ nat (- sh)), - sh))"
  using assms by (simp add: float_div_def round_div_even_def shift_divmod_eq Let_def)

lemma bit_length_0: "bit_length 0 = 0"
  by (simp add: bit_length.simps)

lemma bit_length_1: "bit_length 1 = 1"
  by (simp add: bit_length.simps)

lemma bit_length_Bit0: "bit_length (numeral (num.Bit0 k)) = Suc (bit_length (numeral k))"
  by (subst bit_length.simps) simp

lemma bit_length_Bit1: "bit_length (numeral (num.Bit1 k)) = Suc (bit_length (numeral k))"
  by (subst bit_length.simps) simp

lemmas score_eval =
  score_of_def float_div_0 float_div_eval float_mul_int_def py_round_def
  round_div_even_def Let_def bit_length_0 bit_length_1 bit_length_Bit0 bit_length_Bit1
  eval_nat_numeral

text \<open>
  The score law holds for every session size from 1 to 39: all 819 pairs of a size and
  a count are evaluated, in groups. The first size at which it fails is 40.
\<close>

lemma score_law_1_14: "list_all score_law [1..14]"
  apply (simp add: upto.simps)
  apply (simp add: score_law_def upto.simps)
  apply (simp add: score_eval)
  done

lemma score_law_15_20: "list_all score_law [15..20]"
  apply (simp add: upto.simps)
  apply (simp add: score_law_def upto.simps)
  apply (simp add: score_eval)
  done

lemma score_law_21_25: "list_all score_law [21..25]"
  apply (simp add: upto.simps)
  apply (simp add: score_law_def upto.simps)
  apply (simp add: score_eval)
  done

lemma score_law_26_29: "list_all score_law [26..29]"
  apply (simp add: upto.simps)
  apply (simp add: score_law_def upto.simps)
  apply (simp add: score_eval)
  done

lemma score_law_30_32: "list_all score_law [30..32]"
  apply (simp add: upto.simps)
  apply (simp add: score_law_def upto.simps)
  apply (simp add: score_eval)
  done

lemma score_law_33_35: "list_all score_law [33..35]"
  apply (simp add: upto.simps)
  apply (simp add: score_law_def upto.simps)
  apply (simp add: score_eval)
  done

lemma score_law_36_37: "list_all score_law [36..37]"
  apply (simp add: upto.simps)
  apply (simp add: score_law_def upto.simps)
  apply (simp add: score_eval)
  done

lemma score_law_38_39: "list_all score_law [38..39]"
  apply (simp add: upto.simps)
  apply (simp add: score_law_def upto.simps)
  apply (simp add: score_eval)
  done

lemma score_law_upto_39: "list_all score_law [1..39]"
  using score_law_1_14 score_law_15_20 score_law_21_25 score_law_26_29 score_law_30_32 score_law_33_35 score_law_36_37 score_law_38_39
  by (simp add: upto.simps)

lemma score_of_upto_39:
  assumes "1 \<le> n" and "n \<le> 39" and "0 \<le> c" and "c \<le> n"
  shows "score_of c n = round_div_even (100 * c) n"
proof -
  from assms have "n \<in> set [1..39]" and "c \<in> set [0..n]"
    by simp_all
  with score_law_upto_39 show ?thesis
    unfolding list_all_iff score_law_def by blast
qed

lemma score_of_3_4: "score_of 3 4 = 75"
  by (simp add: score_eval)

lemma score_of_1_3: "score_of 1 3 = 33"
  by (simp add: score_eval)

lemma score_of_23_40: "score_of 23 40 = 57"
  by (simp add: score_eval)

text \<open>
  C5, as the code has it. When the answer to the last question of a session of at most
  39 questions is recorded (the bank and the question resolve), the session gets
  \<open>completed_at\<close> and its score is \<open>100 * C / N\<close> rounded to the nearest integer, ties to
  even, for \<open>C\<close> correct answers among \<open>N\<close> questions.
\<close>

theorem answer_question_final_score:
  assumes "0 \<le> qi" and "qi + 1 = int (length (s_questions s))"
    and "length (s_questions s) \<le> 39"
    and "get_quiz st (s_quiz_id s) = Some q"
    and "find (\<lambda>oq. qid oq = sq_id (s_questions s ! nat qi)) (questions q) = Some oq"
  shows "\<exists>s'. answer_question st now s qi a = Inr s'
           \<and> completed_at s' = Some now
           \<and> score s' = Some (round_div_even (100 * correct_count (s_questions s'))
                                (int (length (s_questions s'))))"
proof -
  let ?qs = "(s_questions s)[nat qi := (s_questions s ! nat qi)
               \<lparr>user_answer_index := Some a,
                is_correct := Some (a = correct_answer_index oq),
                sq_explanation := explanation oq\<rparr>]"
  from assms(2) have lt: "qi < int (length (s_questions s))"
    by simp
  have n: "1 \<le> int (length ?qs)" "int (length ?qs) \<le> 39"
    using assms(1-3) by simp_all
  have "session_score ?qs = round_div_even (100 * correct_count ?qs) (int (length ?qs))"
    unfolding session_score_def
    using n correct_count_bounds [of ?qs] by (intro score_of_upto_39) simp_all
  then show ?thesis
    using assms(2) by (simp add: answer_question_resolved [OF assms(1) lt assms(4,5)] Let_def)
qed

theorem answer_question_final_score_witness:
  "(0::int) \<le> 3 \<and> (3::int) + 1 = int (length (s_questions four_session))
   \<and> length (s_questions four_session) \<le> 39
   \<and> get_quiz store_one (s_quiz_id four_session) = Some bank_one
   \<and> find (\<lambda>oq. qid oq = sq_id (s_questions four_session ! nat 3)) (questions bank_one)
       = Some question_two
   \<and> answer_question store_one ''t9'' four_session 3 0
       = Inr (four_session
           \<lparr>s_questions := [answered ''q2'' True, answered ''q2'' False, answered ''q2'' True,
              (answered ''q2'' True)\<lparr>sq_explanation := ''product''\<rparr>],
            current_question_index := 4, completed_at := Some ''t9'', score := Some 75\<rparr>)
   \<and> round_div_even (100 * 3) 4 = 75"
proof -
  have h1: "(0::int) \<le> 3"
    by simp
  have h2: "(3::int) + 1 = int (length (s_questions four_session))"
    by (simp add: example_defs)
  have h3: "length (s_questions four_session) \<le> 39"
    by (simp add: example_defs)
  have h4: "get_quiz store_one (s_quiz_id four_session) = Some bank_one"
    by (simp add: example_defs)
  have h5: "find (\<lambda>oq. qid oq = sq_id (s_questions four_session ! nat 3))
              (questions bank_one) = Some question_two"
    by (simp add: example_defs)
  have e: "answer_question store_one ''t9'' four_session 3 0
       = Inr (four_session
           \<lparr>s_questions := [answered ''q2'' True, answered ''q2'' False, answered ''q2'' True,
              (answered ''q2'' True)\<lparr>sq_explanation := ''product''\<rparr>],
            current_question_index := 4, completed_at := Some ''t9'', score := Some 75\<rparr>)"
    by (simp add: answer_question_def example_defs session_score_def correct_count_def
          score_of_3_4)
  have r: "round_div_even (100 * 3) 4 = 75"
    by (simp add: round_div_even_def)
  from answer_question_final_score [OF h1 h2 h3 h4 h5, of "''t9''" 0] h2 h3 h4 h5 e r
  show ?thesis
    by simp
qed

text \<open>
  The claim as stated fails for a session of 40 questions: when the last answer brings
  the count of correct answers to 23, \<open>23 / 40\<close> times 100 is a binary64 number just below
  57.5 and the score is 57, while \<open>100 * 23 / 40 = 57.5\<close> rounds to 58.
\<close>

theorem answer_question_final_score_counterexample:
  "answer_question store_one ''t9'' forty_session 39 0
     = Inr (forty_session
         \<lparr>s_questions := replicate 22 (answered ''q2'' True)
            @ replicate 17 (answered ''q2'' False)
            @ [(answered ''q2'' True)\<lparr>sq_explanation := ''product''\<rparr>],
          current_question_index := 40, completed_at := Some ''t9'', score := Some 57\<rparr>)
   \<and> correct_count (replicate 22 (answered ''q2'' True)
            @ replicate 17 (answered ''q2'' False)
            @ [(answered ''q2'' True)\<lparr>sq_explanation := ''product''\<rparr>]) = 23
   \<and> round_div_even (100 * 23) 40 = 58"
  by code_simp

section \<open>Reviewing flashcards\<close>

lemmas card_defs =
  card_A_def card_B_def card_C_def card_D_def card_E_def card_of_def set_of_def
  card_store_def get_set_def

text \<open>
  C2. For the cards A (never reviewed, difficulty 1), B (reviewed, difficulty 3) and C
  (reviewed, difficulty 0) \<open>get_cards_to_review\<close> returns A, C, B: the sort is ascending in
  the difficulty, so the lower difficulty comes first. It is ascending in the negated
  review count as well, so of two reviewed cards of one difficulty the one reviewed more
  often comes first: E (5 reviews) before D (1 review). The comments at the key say
  \<^verbatim>\<open>highest first\<close> and \<^verbatim>\<open>least reviewed\<close>.
\<close>

theorem get_cards_to_review_example:
  "get_cards_to_review (card_store [card_A, card_B, card_C]) ''f1'' 10
     = [card_A, card_C, card_B]
   \<and> get_cards_to_review (card_store [card_D, card_E]) ''f1'' 10 = [card_E, card_D]"
  by (simp add: get_cards_to_review_def slice_to_def review_key_def card_defs)

lemma review_first_nth:
  assumes "k < length cs" and "card_id (cs ! k) = cid"
    and "cid \<notin> card_id ` set (take k cs)"
  shows "review_first now cid d cs
           = cs[k := (cs ! k)\<lparr>last_reviewed := Some now,
                               review_count := review_count (cs ! k) + 1,
                               difficulty := max 0 (min 3 d)\<rparr>]"
  using assms
proof (induction cs arbitrary: k)
  case Nil
  then show ?case by simp
next
  case (Cons c cs)
  show ?case
  proof (cases k)
    case 0
    with Cons.prems show ?thesis by simp
  next
    case (Suc j)
    with Cons.prems have "card_id c \<noteq> cid" and "j < length cs"
      and "card_id (cs ! j) = cid" and "cid \<notin> card_id ` set (take j cs)"
      by auto
    with Cons.IH [of j] Suc show ?thesis by simp
  qed
qed

text \<open>
  C9. \<open>record_review\<close> on a set that resolves, for the first card \<open>k\<close> of the set that has
  the identifier: the card's \<open>review_count\<close> grows by exactly 1, its \<open>last_reviewed\<close> is
  the current time, its \<open>difficulty\<close> is the input clamped into \<open>[0, 3]\<close>, and no other
  card changes.
\<close>

theorem record_review_existing_card:
  assumes "get_set st i = Some fs" and "k < length (cards fs)"
    and "card_id (cards fs ! k) = cid"
    and "cid \<notin> card_id ` set (take k (cards fs))"
  shows "\<exists>fs'. record_review st now1 now2 i cid d = (Some fs', st(set_id fs \<mapsto> fs'))
           \<and> length (cards fs') = length (cards fs)
           \<and> review_count (cards fs' ! k) = review_count (cards fs ! k) + 1
           \<and> last_reviewed (cards fs' ! k) = Some now1
           \<and> difficulty (cards fs' ! k) = (if d < 0 then 0 else if d > 3 then 3 else d)
           \<and> 0 \<le> difficulty (cards fs' ! k) \<and> difficulty (cards fs' ! k) \<le> 3
           \<and> drop (Suc k) (cards fs') = drop (Suc k) (cards fs)
           \<and> take k (cards fs') = take k (cards fs)"
  using assms(1,2)
  by (simp add: record_review_def save_set_def Let_def review_first_nth [OF assms(2-4)])

theorem record_review_existing_card_witness:
  "get_set (card_store [card_A, card_B, card_C]) ''f1'' = Some (set_of [card_A, card_B, card_C])
   \<and> (1::nat) < length (cards (set_of [card_A, card_B, card_C]))
   \<and> card_id (cards (set_of [card_A, card_B, card_C]) ! 1) = ''B''
   \<and> ''B'' \<notin> card_id ` set (take 1 (cards (set_of [card_A, card_B, card_C])))
   \<and> fst (record_review (card_store [card_A, card_B, card_C]) ''t5'' ''t6'' ''f1'' ''B'' 7)
       = Some ((set_of [card_A, card_of ''B'' (Some ''t5'') 2 3, card_C])
                 \<lparr>set_updated_at := ''t6''\<rparr>)
   \<and> fst (record_review (card_store [card_A, card_B, card_C]) ''t5'' ''t6'' ''f1'' ''B'' (- 2))
       = Some ((set_of [card_A, card_of ''B'' (Some ''t5'') 2 0, card_C])
                 \<lparr>set_updated_at := ''t6''\<rparr>)"
proof -
  have h1: "get_set (card_store [card_A, card_B, card_C]) ''f1''
              = Some (set_of [card_A, card_B, card_C])"
    by (simp add: card_defs)
  have h2: "(1::nat) < length (cards (set_of [card_A, card_B, card_C]))"
    by (simp add: card_defs)
  have h3: "card_id (cards (set_of [card_A, card_B, card_C]) ! 1) = ''B''"
    by (simp add: card_defs)
  have h4: "''B'' \<notin> card_id ` set (take 1 (cards (set_of [card_A, card_B, card_C])))"
    by (simp add: card_defs)
  have e: "fst (record_review (card_store [card_A, card_B, card_C]) ''t5'' ''t6'' ''f1'' ''B'' 7)
       = Some ((set_of [card_A, card_of ''B'' (Some ''t5'') 2 3, card_C])
                 \<lparr>set_updated_at := ''t6''\<rparr>)"
    by (simp add: record_review_def save_set_def Let_def card_defs)
  have f: "fst (record_review (card_store [card_A, card_B, card_C]) ''t5'' ''t6'' ''f1'' ''B''
                 (- 2))
       = Some ((set_of [card_A, card_of ''B'' (Some ''t5'') 2 0, card_C])
                 \<lparr>set_updated_at := ''t6''\<rparr>)"
    by (simp add: record_review_def save_set_def Let_def card_defs)
  from record_review_existing_card [OF h1 h2 h3 h4, of "''t5''" "''t6''" 7] h1 h2 h3 h4 e f
  show ?thesis
    by simp
qed

end
